theory Spec2Isabelle
  imports Complex_Main "HOL-Library.Sublist"
begin

section \<open>Python values, exceptions and text\<close>

text \<open>
  The module \<^verbatim>\<open>ai.backend.common.identity\<close> and the function \<^verbatim>\<open>curl\<close> of
  \<^verbatim>\<open>ai.backend.common.utils\<close> are embedded. A Python \<^verbatim>\<open>str\<close> is a list of 8-bit
  characters read as code points below 256. A call either returns a value (\<open>Inr\<close>) or
  raises (\<open>Inl\<close>); \<^verbatim>\<open>exit(1)\<close> raises \<open>SystemExit 1\<close>, which ends the process when
  nothing catches it. Log output is not part of the model.
\<close>

datatype py_exc =
    OSError
  | JSONDecodeError
  | KeyError
  | IndexError
  | TypeError
  | AttributeError
  | RecursionError
  | UnicodeDecodeError
  | DNSError
  | SystemExit int
  | OutsideModel

text \<open>
  \<open>OSError\<close> stands for \<^verbatim>\<open>IOError\<close> (its alias in Python 3) and its subclasses.
  \<open>OutsideModel\<close> is no Python exception: it marks the one place where a result is a text
  with a code point above 255 (a \<^verbatim>\<open>\u\<close> escape in a JSON string).

  \<open>PNum l\<close> is the number that \<^verbatim>\<open>json.loads\<close> builds from the lexeme \<open>l\<close>;
  \<open>PDict\<close> keeps the pairs in the order read, a later pair overriding an earlier one with
  the same key; \<open>PFormat p v\<close> is the text \<^verbatim>\<open>f'{p}{v}'\<close> for a number, list or
  dict \<open>v\<close>, whose \<^verbatim>\<open>repr\<close> is not computed here.
\<close>

datatype pyval =
    PNone
  | PBool bool
  | PNum string
  | PStr string
  | PList "pyval list"
  | PDict "(string \<times> pyval) list"
  | PFormat string pyval

type_synonym 'a result = "py_exc + 'a"

subsection \<open>\<^verbatim>\<open>str.strip\<close>, \<^verbatim>\<open>str.lower\<close>, \<^verbatim>\<open>in\<close>, \<^verbatim>\<open>str.rsplit\<close>\<close>

definition py_isspace :: "char \<Rightarrow> bool" where
  "py_isspace c =
     (of_char c \<in> {9, 10, 11, 12, 13, 28, 29, 30, 31, 32, 133, 160 :: nat})"

definition py_strip :: "string \<Rightarrow> string" where
  "py_strip s = rev (dropWhile py_isspace (rev (dropWhile py_isspace s)))"

definition py_lower_char :: "char \<Rightarrow> char" where
  "py_lower_char c =
     (let n = of_char c :: nat in
      if (65 \<le> n \<and> n \<le> 90) \<or> (192 \<le> n \<and> n \<le> 222 \<and> n \<noteq> 215)
      then char_of (n + 32) else c)"

definition py_lower :: "string \<Rightarrow> string" where
  "py_lower s = map py_lower_char s"

fun py_in :: "string \<Rightarrow> string \<Rightarrow> bool" where
  "py_in sub [] = (sub = [])"
| "py_in sub (c # cs) = (prefix sub (c # cs) \<or> py_in sub cs)"

text \<open>\<open>rsplit1 sep s\<close> is \<^verbatim>\<open>s.rsplit(sep, 1)\<close> for a one-character separator.\<close>

definition rsplit1 :: "char \<Rightarrow> string \<Rightarrow> string list" where
  "rsplit1 sep s =
     (if sep \<in> set s
      then [rev (tl (dropWhile (\<lambda>c. c \<noteq> sep) (rev s))),
            rev (takeWhile (\<lambda>c. c \<noteq> sep) (rev s))]
      else [s])"

section \<open>The environment of the process\<close>

datatype http_outcome =
    TimeoutError
  | ClientError
  | Response nat string
  | Raised py_exc

text \<open>
  What the one GET of \<^verbatim>\<open>curl\<close> meets: the timeout expires, aiohttp raises a
  \<^verbatim>\<open>ClientError\<close>, a response arrives with a status and a body text, or something
  else is raised that the \<^verbatim>\<open>except\<close> clause of \<^verbatim>\<open>curl\<close> does not name.
\<close>

datatype proc_outcome =
    SpawnFailed
  | Completed string string

type_synonym pairs = "(string \<times> string) list"

record world =
  platform :: string
  read_text :: "string \<Rightarrow> string result"
  hostname :: string
  http_get :: "string \<Rightarrow> pairs option \<Rightarrow> pairs option \<Rightarrow> real \<Rightarrow> http_outcome"
  environ :: "string \<rightharpoonup> string"
  gethostbyname :: "string \<Rightarrow> (string list) result"
  writable :: "string \<Rightarrow> bool"
  popen :: "string list \<Rightarrow> proc_outcome"

text \<open>
  \<open>read_text w p\<close> is \<^verbatim>\<open>Path(p).read_text()\<close>; \<open>http_get w url params headers timeout\<close> is
  the outcome of the GET; \<open>gethostbyname w h\<close> is the list \<^verbatim>\<open>result.addresses\<close> of the
  aiodns lookup of \<open>h\<close>, or the exception it raises (\<open>DNSError\<close> is
  \<^verbatim>\<open>aiodns.error.DNSError\<close>); \<open>writable w p\<close> says whether \<^verbatim>\<open>open(p, 'w')\<close>
  succeeds; \<open>popen w argv\<close> is what \<^verbatim>\<open>Popen(argv).communicate()\<close> gives, the two
  streams already decoded (\<open>SpawnFailed\<close>: \<^verbatim>\<open>Popen\<close> raises \<^verbatim>\<open>OSError\<close>).
\<close>

section \<open>\<^verbatim>\<open>utils.curl\<close>\<close>

datatype default_value =
    DValue pyval
  | DCallable "unit \<Rightarrow> pyval result"

definition use_default :: "default_value \<Rightarrow> pyval result" where
  "use_default default_value =
     (case default_value of
        DCallable f \<Rightarrow> f ()
      | DValue v \<Rightarrow> Inr v)"

definition curl ::
  "world \<Rightarrow> string \<Rightarrow> default_value \<Rightarrow> pairs option \<Rightarrow> pairs option \<Rightarrow> real \<Rightarrow> pyval result"
where
  "curl w url default_value params headers timeout =
     (case http_get w url params headers timeout of
        Response status body \<Rightarrow>
          if status = 200 then Inr (PStr (py_strip body)) else use_default default_value
      | TimeoutError \<Rightarrow> use_default default_value
      | ClientError \<Rightarrow> use_default default_value
      | Raised e \<Rightarrow> Inl e)"

section \<open>\<^verbatim>\<open>json.loads\<close> and subscripting\<close>

text \<open>
  \<^verbatim>\<open>json.loads\<close> belongs to the standard library, not to this repository. It is
  written out as a recursive-descent reader over the grammar the library accepts: the
  four whitespace characters, \<^verbatim>\<open>null\<close>, \<^verbatim>\<open>true\<close>, \<^verbatim>\<open>false\<close>, numbers (kept as
  lexemes, \<^verbatim>\<open>NaN\<close> and the infinities among them), strings with their escapes,
  arrays and objects, and nothing but whitespace after the value. The recursion runs on
  fuel, one unit for each nested call; \<open>json_loads\<close> starts it with
  \<open>2 * length s + 2\<close>, and running out of fuel is reported as \<^verbatim>\<open>RecursionError\<close>.
\<close>

definition json_ws :: "char \<Rightarrow> bool" where
  "json_ws c = (c = CHR '' '' \<or> c = CHR 0x09 \<or> c = CHR 0x0A \<or> c = CHR 0x0D)"

definition skip_ws :: "string \<Rightarrow> string" where
  "skip_ws s = dropWhile json_ws s"

definition is_digit :: "char \<Rightarrow> bool" where
  "is_digit c = (48 \<le> (of_char c :: nat) \<and> (of_char c :: nat) \<le> 57)"

definition hex_val :: "char \<Rightarrow> nat option" where
  "hex_val c =
     (let n = of_char c :: nat in
      if 48 \<le> n \<and> n \<le> 57 then Some (n - 48)
      else if 97 \<le> n \<and> n \<le> 102 then Some (n - 87)
      else if 65 \<le> n \<and> n \<le> 70 then Some (n - 55)
      else None)"

definition hex4 :: "string \<Rightarrow> nat option" where
  "hex4 s =
     (case map hex_val s of
        [Some a, Some b, Some c, Some d] \<Rightarrow> Some (((a * 16 + b) * 16 + c) * 16 + d)
      | _ \<Rightarrow> None)"

definition unescape :: "char \<Rightarrow> char option" where
  "unescape e =
     (if e = CHR 0x22 then Some (CHR 0x22)
      else if e = CHR 0x5C then Some (CHR 0x5C)
      else if e = CHR ''/'' then Some (CHR ''/'')
      else if e = CHR ''b'' then Some (CHR 0x08)
      else if e = CHR ''f'' then Some (CHR 0x0C)
      else if e = CHR ''n'' then Some (CHR 0x0A)
      else if e = CHR ''r'' then Some (CHR 0x0D)
      else if e = CHR ''t'' then Some (CHR 0x09)
      else None)"

definition consr :: "char \<Rightarrow> (string \<times> string) result \<Rightarrow> (string \<times> string) result" where
  "consr c r = (case r of Inl e \<Rightarrow> Inl e | Inr (t, rest) \<Rightarrow> Inr (c # t, rest))"

text \<open>\<open>scanstring s\<close> reads a string literal whose opening quote has been consumed.\<close>

fun scanstring :: "string \<Rightarrow> (string \<times> string) result" where
  "scanstring [] = Inl JSONDecodeError"
| "scanstring (c # cs) =
     (if c = CHR 0x22 then Inr ([], cs)
      else if c = CHR 0x5C then
        (case cs of
           [] \<Rightarrow> Inl JSONDecodeError
         | e # rest \<Rightarrow>
             if e = CHR ''u'' then
               (case hex4 (take 4 rest) of
                  None \<Rightarrow> Inl JSONDecodeError
                | Some n \<Rightarrow>
                    if n < 256 then consr (char_of n) (scanstring (drop 4 rest))
                    else Inl OutsideModel)
             else
               (case unescape e of
                  None \<Rightarrow> Inl JSONDecodeError
                | Some ch \<Rightarrow> consr ch (scanstring rest)))
      else if (of_char c :: nat) < 32 then Inl JSONDecodeError
      else consr c (scanstring cs))"

text \<open>
  \<open>scan_number s\<close> is the longest match of
  \<^verbatim>\<open>-?(0|[1-9][0-9]*)(\.[0-9]+)?([eE][-+]?[0-9]+)?\<close> at the head of \<open>s\<close>, with the rest.
\<close>

definition scan_frac :: "string \<Rightarrow> string \<times> string" where
  "scan_frac s =
     (case s of
        c # r \<Rightarrow>
          if c = CHR ''.'' \<and> takeWhile is_digit r \<noteq> []
          then (c # takeWhile is_digit r, dropWhile is_digit r) else ([], s)
      | [] \<Rightarrow> ([], s))"

definition scan_exp :: "string \<Rightarrow> string \<times> string" where
  "scan_exp s =
     (case s of
        c # r \<Rightarrow>
          if c = CHR ''e'' \<or> c = CHR ''E'' then
            (case r of
               g # r' \<Rightarrow>
                 if (g = CHR ''-'' \<or> g = CHR ''+'') \<and> takeWhile is_digit r' \<noteq> []
                 then (c # g # takeWhile is_digit r', dropWhile is_digit r')
                 else if takeWhile is_digit r \<noteq> []
                 then (c # takeWhile is_digit r, dropWhile is_digit r)
                 else ([], s)
             | [] \<Rightarrow> ([], s))
          else ([], s)
      | [] \<Rightarrow> ([], s))"

definition scan_int :: "string \<Rightarrow> (string \<times> string) option" where
  "scan_int s =
     (case s of
        [] \<Rightarrow> None
      | d # r \<Rightarrow>
          if d = CHR ''0'' then Some ([d], r)
          else if is_digit d then Some (d # takeWhile is_digit r, dropWhile is_digit r)
          else None)"

definition scan_number :: "string \<Rightarrow> (string \<times> string) option" where
  "scan_number s =
     (let (sign, s1) = (case s of
                          c # r \<Rightarrow> if c = CHR ''-'' then ([c], r) else ([], s)
                        | [] \<Rightarrow> ([], s))
      in case scan_int s1 of
           None \<Rightarrow> None
         | Some (i, s2) \<Rightarrow>
             (let (f, s3) = scan_frac s2; (x, s4) = scan_exp s3
              in Some (sign @ i @ f @ x, s4)))"

definition scan_word :: "string \<Rightarrow> (pyval \<times> string) result" where
  "scan_word s =
     (if prefix ''null'' s then Inr (PNone, drop 4 s)
      else if prefix ''true'' s then Inr (PBool True, drop 4 s)
      else if prefix ''false'' s then Inr (PBool False, drop 5 s)
      else case scan_number s of
             Some (l, rest) \<Rightarrow> Inr (PNum l, rest)
           | None \<Rightarrow>
               if prefix ''NaN'' s then Inr (PNum ''NaN'', drop 3 s)
               else if prefix ''Infinity'' s then Inr (PNum ''Infinity'', drop 8 s)
               else if prefix ''-Infinity'' s then Inr (PNum ''-Infinity'', drop 9 s)
               else Inl JSONDecodeError)"

fun scan_once :: "nat \<Rightarrow> string \<Rightarrow> (pyval \<times> string) result"
  and scan_array :: "nat \<Rightarrow> string \<Rightarrow> (pyval list \<times> string) result"
  and scan_object :: "nat \<Rightarrow> string \<Rightarrow> ((string \<times> pyval) list \<times> string) result"
where
  "scan_once 0 s = Inl RecursionError"
| "scan_once (Suc n) [] = Inl JSONDecodeError"
| "scan_once (Suc n) (c # cs) =
     (if c = CHR 0x22 then
        (case scanstring cs of
           Inl e \<Rightarrow> Inl e
         | Inr (t, rest) \<Rightarrow> Inr (PStr t, rest))
      else if c = CHR ''{'' then
        (case skip_ws cs of
           [] \<Rightarrow> Inl JSONDecodeError
         | d # ds \<Rightarrow>
             if d = CHR ''}'' then Inr (PDict [], ds)
             else (case scan_object n (d # ds) of
                     Inl e \<Rightarrow> Inl e
                   | Inr (kvs, rest) \<Rightarrow> Inr (PDict kvs, rest)))
      else if c = CHR ''['' then
        (case skip_ws cs of
           [] \<Rightarrow> Inl JSONDecodeError
         | d # ds \<Rightarrow>
             if d = CHR '']'' then Inr (PList [], ds)
             else (case scan_array n (d # ds) of
                     Inl e \<Rightarrow> Inl e
                   | Inr (vs, rest) \<Rightarrow> Inr (PList vs, rest)))
      else scan_word (c # cs))"
| "scan_array 0 s = Inl RecursionError"
| "scan_array (Suc n) s =
     (case scan_once n s of
        Inl e \<Rightarrow> Inl e
      | Inr (v, rest) \<Rightarrow>
          (case skip_ws rest of
             [] \<Rightarrow> Inl JSONDecodeError
           | d # ds \<Rightarrow>
               if d = CHR '']'' then Inr ([v], ds)
               else if d = CHR '','' then
                 (case scan_array n (skip_ws ds) of
                    Inl e \<Rightarrow> Inl e
                  | Inr (vs, rest') \<Rightarrow> Inr (v # vs, rest'))
               else Inl JSONDecodeError))"
| "scan_object 0 s = Inl RecursionError"
| "scan_object (Suc n) [] = Inl JSONDecodeError"
| "scan_object (Suc n) (q # s) =
     (if q \<noteq> CHR 0x22 then Inl JSONDecodeError
      else case scanstring s of
        Inl e \<Rightarrow> Inl e
      | Inr (k, rest) \<Rightarrow>
          (case skip_ws rest of
             [] \<Rightarrow> Inl JSONDecodeError
           | col # r1 \<Rightarrow>
               if col \<noteq> CHR '':'' then Inl JSONDecodeError
               else
                 (case scan_once n (skip_ws r1) of
                    Inl e \<Rightarrow> Inl e
                  | Inr (v, r2) \<Rightarrow>
                      (case skip_ws r2 of
                         [] \<Rightarrow> Inl JSONDecodeError
                       | d # ds \<Rightarrow>
                           if d = CHR ''}'' then Inr ([(k, v)], ds)
                           else if d = CHR '','' then
                             (case scan_object n (skip_ws ds) of
                                Inl e \<Rightarrow> Inl e
                              | Inr (kvs, r3) \<Rightarrow> Inr ((k, v) # kvs, r3))
                           else Inl JSONDecodeError))))"

definition json_loads :: "pyval \<Rightarrow> pyval result" where
  "json_loads data =
     (case data of
        PStr s \<Rightarrow>
          (case scan_once (2 * length s + 2) (skip_ws s) of
             Inl e \<Rightarrow> Inl e
           | Inr (v, rest) \<Rightarrow> if skip_ws rest = [] then Inr v else Inl JSONDecodeError)
      | PFormat p v \<Rightarrow> Inl OutsideModel
      | _ \<Rightarrow> Inl TypeError)"

text \<open>\<open>getitem o k\<close> is \<^verbatim>\<open>o[k]\<close> for a text key, \<open>getitem0 o\<close> is \<^verbatim>\<open>o[0]\<close>.\<close>

definition getitem :: "pyval \<Rightarrow> string \<Rightarrow> pyval result" where
  "getitem obj k =
     (case obj of
        PDict kvs \<Rightarrow> (case map_of (rev kvs) k of None \<Rightarrow> Inl KeyError | Some v \<Rightarrow> Inr v)
      | _ \<Rightarrow> Inl TypeError)"

definition getitem0 :: "pyval \<Rightarrow> pyval result" where
  "getitem0 obj =
     (case obj of
        PList vs \<Rightarrow> (case vs of [] \<Rightarrow> Inl IndexError | v # _ \<Rightarrow> Inr v)
      | PStr s \<Rightarrow> (case s of [] \<Rightarrow> Inl IndexError | c # _ \<Rightarrow> Inr (PStr [c]))
      | PFormat p v \<Rightarrow> (case p of [] \<Rightarrow> Inl OutsideModel | c # _ \<Rightarrow> Inr (PStr [c]))
      | PDict kvs \<Rightarrow> Inl KeyError
      | _ \<Rightarrow> Inl TypeError)"

text \<open>\<open>fstring p v\<close> is the text \<^verbatim>\<open>f'{p}{v}'\<close> for a literal prefix \<open>p\<close>.\<close>

definition fstring :: "string \<Rightarrow> pyval \<Rightarrow> pyval" where
  "fstring p v =
     (case v of
        PStr s \<Rightarrow> PStr (p @ s)
      | PNone \<Rightarrow> PStr (p @ ''None'')
      | PBool b \<Rightarrow> PStr (p @ (if b then ''True'' else ''False''))
      | PFormat q u \<Rightarrow> PFormat (p @ q) u
      | _ \<Rightarrow> PFormat p v)"

definition bnd :: "'a result \<Rightarrow> ('a \<Rightarrow> 'b result) \<Rightarrow> 'b result" where
  "bnd m f = (case m of Inl e \<Rightarrow> Inl e | Inr x \<Rightarrow> f x)"

section \<open>\<^verbatim>\<open>identity.is_containerized\<close> and \<^verbatim>\<open>identity.detect_cloud\<close>\<close>

definition is_containerized :: "world \<Rightarrow> pyval result" where
  "is_containerized w =
     (case read_text w ''/proc/self/cgroup'' of
        Inr cginfo \<Rightarrow>
          if py_in ''/docker/'' cginfo \<or> py_in ''/lxc/'' cginfo then Inr (PBool True)
          else Inr PNone
      | Inl e \<Rightarrow> if e = OSError then Inr (PBool False) else Inl e)"

text \<open>
  The two \<^verbatim>\<open>try\<close> blocks of \<^verbatim>\<open>detect_cloud\<close>: \<open>Inr (Some tag)\<close> is a
  \<^verbatim>\<open>return\<close> inside the block, \<open>Inr None\<close> falls through to the next statement.
\<close>

definition try_bios :: "world \<Rightarrow> (string option) result" where
  "try_bios w =
     (case read_text w ''/sys/devices/virtual/dmi/id/bios_version'' of
        Inr t \<Rightarrow>
          (let bios = py_lower t in
           if py_in ''google'' bios then Inr (Some ''google'')
           else if py_in ''amazon'' bios then Inr (Some ''amazon'')
           else Inr None)
      | Inl e \<Rightarrow> if e = OSError then Inr None else Inl e)"

definition try_dhcp :: "world \<Rightarrow> (string option) result" where
  "try_dhcp w =
     (case read_text w ''/var/lib/dhcp/dhclient.eth0.leases'' of
        Inr dhcp \<Rightarrow> if py_in ''unknown-245'' dhcp then Inr (Some ''azure'') else Inr None
      | Inl e \<Rightarrow> if e = OSError then Inr None else Inl e)"

definition detect_cloud :: "world \<Rightarrow> string result" where
  "detect_cloud w =
     (if prefix ''linux'' (platform w) then
        (case try_bios w of
           Inl e \<Rightarrow> Inl e
         | Inr (Some tag) \<Rightarrow> Inr tag
         | Inr None \<Rightarrow>
             (case try_dhcp w of
                Inl e \<Rightarrow> Inl e
              | Inr (Some tag) \<Rightarrow> Inr tag
              | Inr None \<Rightarrow> Inr ''unknown''))
      else Inr ''unknown'')"

section \<open>The accessors that \<^verbatim>\<open>_define_functions\<close> builds\<close>

definition default_timeout :: real where
  "default_timeout = 0.2"

definition hostname_id :: "world \<Rightarrow> pyval" where
  "hostname_id w = PStr (''i-'' @ hostname w)"

subsection \<open>amazon\<close>

definition amazon_metadata_prefix :: string where
  "amazon_metadata_prefix = ''http://169.254.169.254/latest/meta-data/''"

definition amazon_dynamic_prefix :: string where
  "amazon_dynamic_prefix = ''http://169.254.169.254/latest/dynamic/''"

definition amazon_get_instance_id :: "world \<Rightarrow> pyval result" where
  "amazon_get_instance_id w =
     curl w (amazon_metadata_prefix @ ''instance-id'')
       (DCallable (\<lambda>_. Inr (hostname_id w))) None None default_timeout"

definition amazon_get_instance_ip :: "world \<Rightarrow> pyval result" where
  "amazon_get_instance_ip w =
     curl w (amazon_metadata_prefix @ ''local-ipv4'')
       (DValue (PStr ''127.0.0.1'')) None None default_timeout"

definition amazon_get_instance_type :: "world \<Rightarrow> pyval result" where
  "amazon_get_instance_type w =
     curl w (amazon_metadata_prefix @ ''instance-type'')
       (DValue (PStr ''unknown'')) None None default_timeout"

definition amazon_get_instance_region :: "world \<Rightarrow> pyval result" where
  "amazon_get_instance_region w =
     bnd (curl w (amazon_dynamic_prefix @ ''instance-identity/document'')
            (DValue PNone) None None default_timeout)
       (\<lambda>doc. if doc = PNone then Inr (PStr ''amazon/unknown'')
              else bnd (json_loads doc)
                (\<lambda>obj. bnd (getitem obj ''region'')
                  (\<lambda>region. Inr (fstring ''amazon/'' region))))"

text \<open>
  The files of the working directory are a map from path to content.
  \<^verbatim>\<open>str(Path('./retrieve_tag.sh'))\<close> is \<^verbatim>\<open>retrieve_tag.sh\<close>, the file that the
  argument \<^verbatim>\<open>./retrieve_tag.sh\<close> of \<^verbatim>\<open>sh\<close> names.
\<close>

type_synonym files = "string \<rightharpoonup> string"

definition bash_script_path :: string where
  "bash_script_path = ''retrieve_tag.sh''"

definition bash_script :: string where
  \<open>bash_script =
     concat (map (\<lambda>l. l @ [CHR 0x0A])
       [
        [],
        ''#!/bin/bash'',
        [],
        ''if [ -z $1 ]; then'',
        ''    scriptName=`basename "$0"`'',
        ''    echo  >&2 "Usage: $scriptName <tag_name>"'',
        ''    exit 1'',
        ''fi'',
        [],
        ''# check that aws and ec2-metadata commands are installed'',
        ''command -v aws >/dev/null 2>&1 || { echo >&2 '' @ [CHR 0x27] @ ''aws command not installed.'' @ [CHR 0x27] @ ''; exit 2; }'',
        ''command -v ec2-metadata >/dev/null 2>&1 || { echo >&2 '' @ [CHR 0x27] @ ''ec2-metadata command not installed.'' @ [CHR 0x27] @ ''; exit 3; }'',
        [],
        ''# set filter parameters'',
        ''instanceId=$(ec2-metadata -i | cut -d '' @ [CHR 0x27] @ '' '' @ [CHR 0x27] @ '' -f2)'',
        ''filterParams=( --filters "Name=key,Values=$1"     "Name=resource-type,Values=instance" "Name=resource-id,Values=$instanceId" )'',
        [],
        ''# get region'',
        ''region=$(ec2-metadata --availability-zone | cut -d '' @ [CHR 0x27] @ '' '' @ [CHR 0x27] @ '' -f2)'',
        ''region=${region%?}'',
        [],
        ''# retrieve tags'',
        ''tagValues=$(aws ec2 describe-tags --output text --region "$region" "${filterParams[@]}")'',
        ''if [ $? -ne 0 ]; then'',
        ''    echo >&2 "Error retrieving tag value."'',
        ''    exit 4'',
        ''fi'',
        [],
        ''# extract required tag value'',
        ''tagValue=$(echo "$tagValues" | cut -f5)'',
        ''echo "$tagValue"''
       ]) @ ''            ''\<close>

definition amazon_get_instance_scaling_group :: "world \<Rightarrow> files \<Rightarrow> pyval result \<times> files" where
  "amazon_get_instance_scaling_group w fs =
     (if \<not> writable w bash_script_path then (Inl OSError, fs)
      else
        (let fs1 = fs(bash_script_path \<mapsto> bash_script) in
         case popen w [''sh'', ''./retrieve_tag.sh'', ''Scaling_Group''] of
           SpawnFailed \<Rightarrow> (Inl OSError, fs1)
         | Completed scaling_group errs \<Rightarrow>
             if errs \<noteq> [] then (Inl (SystemExit 1), fs1)
             else (Inr (PStr scaling_group), fs1(bash_script_path := None))))"

subsection \<open>azure\<close>

definition azure_metadata_prefix :: string where
  "azure_metadata_prefix = ''http://169.254.169.254/metadata/instance''"

definition azure_curl :: "world \<Rightarrow> pyval result" where
  "azure_curl w =
     curl w azure_metadata_prefix (DValue PNone)
       (Some [(''version'', ''2017-03-01'')]) (Some [(''Metadata'', ''true'')]) default_timeout"

definition azure_get_instance_id :: "world \<Rightarrow> pyval result" where
  "azure_get_instance_id w =
     bnd (azure_curl w)
       (\<lambda>data. if data = PNone then Inr (hostname_id w)
               else bnd (json_loads data)
                 (\<lambda>obj. bnd (getitem obj ''compute'') (\<lambda>c. getitem c ''vmId'')))"

definition azure_get_instance_ip :: "world \<Rightarrow> pyval result" where
  "azure_get_instance_ip w =
     bnd (azure_curl w)
       (\<lambda>data. if data = PNone then Inr (PStr ''127.0.0.1'')
               else bnd (json_loads data)
                 (\<lambda>obj. bnd (getitem obj ''network'')
                   (\<lambda>a. bnd (getitem a ''interface'')
                     (\<lambda>b. bnd (getitem0 b)
                       (\<lambda>c. bnd (getitem c ''ipv4'')
                         (\<lambda>d. bnd (getitem d ''ipaddress'')
                           (\<lambda>e. bnd (getitem0 e)
                             (\<lambda>f. getitem f ''ipaddress''))))))))"

definition azure_get_instance_type :: "world \<Rightarrow> pyval result" where
  "azure_get_instance_type w =
     bnd (azure_curl w)
       (\<lambda>data. if data = PNone then Inr (PStr ''unknown'')
               else bnd (json_loads data)
                 (\<lambda>obj. bnd (getitem obj ''compute'') (\<lambda>c. getitem c ''vmSize'')))"

definition azure_get_instance_region :: "world \<Rightarrow> pyval result" where
  "azure_get_instance_region w =
     bnd (azure_curl w)
       (\<lambda>data. if data = PNone then Inr (PStr ''azure/unknown'')
               else bnd (json_loads data)
                 (\<lambda>obj. bnd (getitem obj ''compute'')
                   (\<lambda>c. bnd (getitem c ''location'')
                     (\<lambda>region. Inr (fstring ''azure/'' region)))))"

definition azure_get_instance_scaling_group :: "world \<Rightarrow> files \<Rightarrow> pyval result \<times> files" where
  "azure_get_instance_scaling_group w fs = (Inr (PStr ''default''), fs)"

subsection \<open>google\<close>

definition google_metadata_prefix :: string where
  "google_metadata_prefix = ''http://metadata.google.internal/computeMetadata/v1/''"

definition google_headers :: "pairs option" where
  "google_headers = Some [(''Metadata-Flavor'', ''Google'')]"

definition google_get_instance_id :: "world \<Rightarrow> pyval result" where
  "google_get_instance_id w =
     curl w (google_metadata_prefix @ ''instance/id'')
       (DCallable (\<lambda>_. Inr (hostname_id w))) None google_headers default_timeout"

definition google_get_instance_ip :: "world \<Rightarrow> pyval result" where
  "google_get_instance_ip w =
     curl w (google_metadata_prefix @ ''instance/network-interfaces/0/ip'')
       (DValue (PStr ''127.0.0.1'')) None google_headers default_timeout"

definition google_get_instance_type :: "world \<Rightarrow> pyval result" where
  "google_get_instance_type w =
     curl w (google_metadata_prefix @ ''instance/machine-type'')
       (DValue (PStr ''unknown'')) None google_headers default_timeout"

definition google_get_instance_region :: "world \<Rightarrow> pyval result" where
  "google_get_instance_region w =
     bnd (curl w (google_metadata_prefix @ ''instance/zone'')
            (DValue (PStr ''unknown'')) None google_headers default_timeout)
       (\<lambda>zone. case zone of
                 PStr z \<Rightarrow>
                   (case rsplit1 (CHR ''-'') z of
                      [] \<Rightarrow> Inl IndexError
                    | region # _ \<Rightarrow> Inr (PStr (''google/'' @ region)))
               | _ \<Rightarrow> Inl AttributeError)"

definition google_get_instance_scaling_group :: "world \<Rightarrow> files \<Rightarrow> pyval result \<times> files" where
  "google_get_instance_scaling_group w fs = (Inr (PStr ''default''), fs)"

subsection \<open>any other provider tag\<close>

definition local_get_instance_id :: "world \<Rightarrow> pyval result" where
  "local_get_instance_id w = Inr (hostname_id w)"

definition local_get_instance_ip :: "world \<Rightarrow> pyval result" where
  "local_get_instance_ip w =
     (case gethostbyname w (hostname w) of
        Inr addresses \<Rightarrow>
          (case addresses of [] \<Rightarrow> Inl IndexError | a # _ \<Rightarrow> Inr (PStr a))
      | Inl e \<Rightarrow> if e = DNSError then Inr (PStr ''127.0.0.1'') else Inl e)"

definition local_get_instance_type :: "world \<Rightarrow> pyval result" where
  "local_get_instance_type w = Inr (PStr ''unknown'')"

definition local_get_instance_region :: "world \<Rightarrow> pyval result" where
  "local_get_instance_region w =
     (case environ w ''BACKEND_REGION'' of
        Some v \<Rightarrow> Inr (PStr v)
      | None \<Rightarrow> Inr (PStr ''local/unknown''))"

definition local_get_instance_scaling_group :: "world \<Rightarrow> files \<Rightarrow> pyval result \<times> files" where
  "local_get_instance_scaling_group w fs = (Inr (PStr ''default''), fs)"

section \<open>The module's globals and \<^verbatim>\<open>_define_functions\<close>\<close>

record module_state =
  current_provider :: string
  defined :: bool
  get_instance_id :: "(world \<Rightarrow> pyval result) option"
  get_instance_ip :: "(world \<Rightarrow> pyval result) option"
  get_instance_type :: "(world \<Rightarrow> pyval result) option"
  get_instance_region :: "(world \<Rightarrow> pyval result) option"
  get_instance_scaling_group :: "(world \<Rightarrow> files \<Rightarrow> pyval result \<times> files) option"

text \<open>
  \<open>defined\<close> is the global \<^verbatim>\<open>_defined\<close>; a global that holds \<^verbatim>\<open>None\<close> is \<open>None\<close>.
  \<open>globals_at_load p\<close> is the state after lines 70 to 78 have run with \<open>p\<close> the value of
  \<^verbatim>\<open>detect_cloud()\<close>; \<open>module_load\<close> is the whole module body, which ends with the
  call \<^verbatim>\<open>_define_functions()\<close> of line 274.
\<close>

definition globals_at_load :: "string \<Rightarrow> module_state" where
  "globals_at_load p =
     \<lparr>current_provider = p, defined = False,
      get_instance_id = None, get_instance_ip = None, get_instance_type = None,
      get_instance_region = None, get_instance_scaling_group = None\<rparr>"

definition bind_functions ::
  "module_state \<Rightarrow> (world \<Rightarrow> pyval result) \<Rightarrow> (world \<Rightarrow> pyval result) \<Rightarrow>
   (world \<Rightarrow> pyval result) \<Rightarrow> (world \<Rightarrow> pyval result) \<Rightarrow>
   (world \<Rightarrow> files \<Rightarrow> pyval result \<times> files) \<Rightarrow> module_state"
where
  "bind_functions st f_id f_ip f_type f_region f_scaling_group =
     st\<lparr>get_instance_id := Some f_id,
        get_instance_ip := Some f_ip,
        get_instance_type := Some f_type,
        get_instance_region := Some f_region,
        get_instance_scaling_group := Some f_scaling_group,
        defined := True\<rparr>"

definition define_functions :: "module_state \<Rightarrow> module_state" where
  "define_functions st =
     (if defined st then st
      else if current_provider st = ''amazon'' then
        bind_functions st amazon_get_instance_id amazon_get_instance_ip
          amazon_get_instance_type amazon_get_instance_region
          amazon_get_instance_scaling_group
      else if current_provider st = ''azure'' then
        bind_functions st azure_get_instance_id azure_get_instance_ip
          azure_get_instance_type azure_get_instance_region
          azure_get_instance_scaling_group
      else if current_provider st = ''google'' then
        bind_functions st google_get_instance_id google_get_instance_ip
          google_get_instance_type google_get_instance_region
          google_get_instance_scaling_group
      else
        bind_functions st local_get_instance_id local_get_instance_ip
          local_get_instance_type local_get_instance_region
          local_get_instance_scaling_group)"

definition module_load :: "world \<Rightarrow> module_state result" where
  "module_load w =
     (case detect_cloud w of
        Inl e \<Rightarrow> Inl e
      | Inr p \<Rightarrow> Inr (define_functions (globals_at_load p)))"



section \<open>Failure of a request, and concrete environments\<close>

text \<open>
  A request has failed when the timeout expired, the connection failed or the status is
  not 200; the network is down when every request fails.
\<close>

definition http_failed :: "http_outcome \<Rightarrow> bool" where
  "http_failed r =
     (case r of
        TimeoutError \<Rightarrow> True
      | ClientError \<Rightarrow> True
      | Response status body \<Rightarrow> status \<noteq> 200
      | Raised e \<Rightarrow> False)"


text \<open>
  \<open>blocked_world\<close>: a Linux host named \<^verbatim>\<open>node1\<close> with none of the inspected files, no
  network, no DNS answer, an empty process environment and no \<^verbatim>\<open>aws\<close> command, so that
  the tag-lookup script prints its complaint on the error stream.
  \<open>served_world body\<close>: the same host with a metadata service that answers every GET
  with status 200 and \<open>body\<close>. \<open>host_with_files m\<close>: the same host with the files of \<open>m\<close>
  readable. \<open>tagged_world\<close>: the same host where the script prints a tag value and
  nothing on the error stream.
\<close>

definition blocked_world :: world where
  "blocked_world =
     \<lparr>platform = ''linux'',
      read_text = (\<lambda>p. Inl OSError),
      hostname = ''node1'',
      http_get = (\<lambda>url params headers timeout. TimeoutError),
      environ = Map.empty,
      gethostbyname = (\<lambda>h. Inl DNSError),
      writable = (\<lambda>p. True),
      popen = (\<lambda>argv. Completed [] ''aws command not installed.'')\<rparr>"

definition served_world :: "string \<Rightarrow> world" where
  "served_world body =
     blocked_world\<lparr>http_get := (\<lambda>url params headers timeout. Response 200 body)\<rparr>"

definition host_with_files :: "(string \<rightharpoonup> string) \<Rightarrow> world" where
  "host_with_files m =
     blocked_world\<lparr>read_text := (\<lambda>p. case m p of None \<Rightarrow> Inl OSError | Some t \<Rightarrow> Inr t)\<rparr>"



definition google_host :: world where
  "google_host = host_with_files [''/sys/devices/virtual/dmi/id/bios_version'' \<mapsto> ''Google'']"


definition azure_host :: world where
  "azure_host =
     host_with_files
       [''/sys/devices/virtual/dmi/id/bios_version'' \<mapsto> ''090007'',
        ''/var/lib/dhcp/dhclient.eth0.leases'' \<mapsto> ''option unknown-245 a8:3f:81:10;'']"

definition plain_host :: world where
  "plain_host = host_with_files [''/proc/self/cgroup'' \<mapsto> ''0::/init.scope'']"

definition docker_host :: world where
  "docker_host = host_with_files [''/proc/self/cgroup'' \<mapsto> ''12:pids:/docker/0a1b2c'']"


section \<open>Facts about the text operations\<close>

lemma py_in_sublist: "py_in sub s = sublist sub s"
  by (induction s) (auto simp: sublist_Cons_right)

lemma py_in_iff: "py_in sub s \<longleftrightarrow> (\<exists>a b. s = a @ sub @ b)"
  by (simp add: py_in_sublist sublist_def)

lemma last_dropWhile_nonempty: "dropWhile P xs \<noteq> [] \<Longrightarrow> last (dropWhile P xs) = last xs"
proof -
  assume ne: "dropWhile P xs \<noteq> []"
  have "xs = takeWhile P xs @ dropWhile P xs" by simp
  then have "last xs = last (takeWhile P xs @ dropWhile P xs)" by simp
  also have "\<dots> = last (dropWhile P xs)" using ne by (simp only: last_append if_False)
  finally show ?thesis by simp
qed

lemma py_strip_decomp:
  "s = takeWhile py_isspace s @ py_strip s
         @ rev (takeWhile py_isspace (rev (dropWhile py_isspace s)))"
proof -
  let ?d = "dropWhile py_isspace s"
  have "py_strip s @ rev (takeWhile py_isspace (rev ?d))
          = rev (takeWhile py_isspace (rev ?d) @ dropWhile py_isspace (rev ?d))"
    by (simp only: py_strip_def rev_append)
  also have "\<dots> = rev (rev ?d)"
    by (simp only: takeWhile_dropWhile_id)
  also have "\<dots> = ?d"
    by (simp only: rev_rev_ident)
  finally have "takeWhile py_isspace s @ py_strip s @ rev (takeWhile py_isspace (rev ?d))
                  = takeWhile py_isspace s @ ?d"
    by (simp only:)
  then show ?thesis
    by (simp only: takeWhile_dropWhile_id)
qed

lemma py_strip_surrounding:
  "\<exists>a b. s = a @ py_strip s @ b \<and> list_all py_isspace a \<and> list_all py_isspace b"
proof -
  have "list_all py_isspace (takeWhile py_isspace s)"
    by (auto simp: list_all_iff dest: set_takeWhileD)
  moreover have "list_all py_isspace (rev (takeWhile py_isspace (rev (dropWhile py_isspace s))))"
    by (auto simp: list_all_iff dest: set_takeWhileD)
  ultimately show ?thesis using py_strip_decomp by blast
qed

lemma py_strip_ends:
  assumes "py_strip s \<noteq> []"
  shows "\<not> py_isspace (hd (py_strip s)) \<and> \<not> py_isspace (last (py_strip s))"
proof -
  let ?d = "dropWhile py_isspace s"
  let ?e = "dropWhile py_isspace (rev ?d)"
  from assms have e: "?e \<noteq> []" by (simp add: py_strip_def)
  have d: "?d \<noteq> []"
  proof
    assume "?d = []"
    then have "?e = []" by (simp only: rev.simps dropWhile.simps)
    with e show False by (simp only: not_True_eq_False)
  qed
  have "last (py_strip s) = hd ?e" using e by (simp add: py_strip_def last_rev)
  moreover have "\<not> py_isspace (hd ?e)" using e by (rule hd_dropWhile)
  moreover have "hd (py_strip s) = last ?e" using e by (simp add: py_strip_def hd_rev)
  moreover have "last ?e = last (rev ?d)" using e by (rule last_dropWhile_nonempty)
  moreover have "last (rev ?d) = hd ?d" using d by (simp add: last_rev)
  moreover have "\<not> py_isspace (hd ?d)" using d by (rule hd_dropWhile)
  ultimately show ?thesis by simp
qed



lemma rsplit1_nonempty: "rsplit1 sep s \<noteq> []"
  by (simp add: rsplit1_def)


section \<open>The bounded fetcher\<close>

lemma curl_failed:
  "http_failed (http_get w url params headers t) \<Longrightarrow>
     curl w url dv params headers t = use_default dv"
  by (auto simp: curl_def http_failed_def split: http_outcome.splits)

lemma curl_ok:
  "http_get w url params headers t = Response 200 body \<Longrightarrow>
     curl w url dv params headers t = Inr (PStr (py_strip body))"
  by (simp add: curl_def)

text \<open>
  C3. When the GET completes with status 200, \<^verbatim>\<open>curl\<close> returns the body with the
  surrounding whitespace removed: the body is the result between two runs of whitespace,
  and a non-empty result neither starts nor ends with whitespace. When the timeout
  expires, the connection fails or the status is not 200, it returns the default value,
  calling it first when it is callable.
\<close>

theorem curl_body_or_default:
  "(http_get w url params headers timeout = Response 200 body \<longrightarrow>
      curl w url default_value params headers timeout = Inr (PStr (py_strip body))
      \<and> (\<exists>a b. body = a @ py_strip body @ b \<and> list_all py_isspace a \<and> list_all py_isspace b)
      \<and> (py_strip body \<noteq> [] \<longrightarrow>
            \<not> py_isspace (hd (py_strip body)) \<and> \<not> py_isspace (last (py_strip body))))
   \<and> (http_get w url params headers timeout = TimeoutError
        \<or> http_get w url params headers timeout = ClientError
        \<or> (\<exists>status b. http_get w url params headers timeout = Response status b \<and> status \<noteq> 200)
      \<longrightarrow> curl w url default_value params headers timeout =
            (case default_value of DCallable f \<Rightarrow> f () | DValue v \<Rightarrow> Inr v))"
proof (intro conjI impI)
  assume "http_get w url params headers timeout = Response 200 body"
  then show "curl w url default_value params headers timeout = Inr (PStr (py_strip body))"
    by (rule curl_ok)
next
  show "\<exists>a b. body = a @ py_strip body @ b \<and> list_all py_isspace a \<and> list_all py_isspace b"
    by (rule py_strip_surrounding)
next
  assume "py_strip body \<noteq> []"
  then show "\<not> py_isspace (hd (py_strip body))"
    by (simp add: py_strip_ends)
next
  assume "py_strip body \<noteq> []"
  then show "\<not> py_isspace (last (py_strip body))"
    by (simp add: py_strip_ends)
next
  assume "http_get w url params headers timeout = TimeoutError
        \<or> http_get w url params headers timeout = ClientError
        \<or> (\<exists>status b. http_get w url params headers timeout = Response status b \<and> status \<noteq> 200)"
  then have "http_failed (http_get w url params headers timeout)"
    by (auto simp: http_failed_def)
  then show "curl w url default_value params headers timeout =
            (case default_value of DCallable f \<Rightarrow> f () | DValue v \<Rightarrow> Inr v)"
    by (simp add: curl_failed use_default_def)
qed

theorem curl_body_or_default_witness:
  "http_get (served_world ''  i-0abc  '') ''http://169.254.169.254/latest/meta-data/instance-id''
       None None default_timeout = Response 200 ''  i-0abc  ''
   \<and> curl (served_world ''  i-0abc  '') ''http://169.254.169.254/latest/meta-data/instance-id''
       (DValue (PStr ''unknown'')) None None default_timeout = Inr (PStr ''i-0abc'')
   \<and> http_get blocked_world ''http://169.254.169.254/latest/meta-data/instance-id''
       None None default_timeout = TimeoutError
   \<and> curl blocked_world ''http://169.254.169.254/latest/meta-data/instance-id''
       (DCallable (\<lambda>u. Inr (PStr ''i-node1''))) None None default_timeout = Inr (PStr ''i-node1'')"
  using curl_body_or_default [of "served_world ''  i-0abc  ''"
          "''http://169.254.169.254/latest/meta-data/instance-id''" None None default_timeout
          "''  i-0abc  ''" "DValue (PStr ''unknown'')"]
        curl_body_or_default [of blocked_world
          "''http://169.254.169.254/latest/meta-data/instance-id''" None None default_timeout
          "[]" "DCallable (\<lambda>u. Inr (PStr ''i-node1''))"]
  by (simp add: served_world_def blocked_world_def py_strip_def py_isspace_def)

section \<open>Cloud detection\<close>



text \<open>
  C9. With a readable control-group file that has neither \<^verbatim>\<open>/docker/\<close> nor
  \<^verbatim>\<open>/lxc/\<close> in it, \<^verbatim>\<open>is_containerized\<close> runs off the end of its \<^verbatim>\<open>try\<close> block and
  returns \<^verbatim>\<open>None\<close>, not \<^verbatim>\<open>False\<close>; with a marker it returns \<^verbatim>\<open>True\<close>, and with an
  unreadable file \<^verbatim>\<open>False\<close>.
\<close>

theorem is_containerized_without_marker:
  "is_containerized plain_host = Inr PNone
   \<and> is_containerized docker_host = Inr (PBool True)
   \<and> is_containerized blocked_world = Inr (PBool False)"
  by code_simp

section \<open>The region of a Google instance\<close>






section \<open>Binding the accessors\<close>

lemma define_functions_defined: "defined (define_functions st)"
  by (simp add: define_functions_def bind_functions_def)

lemma define_functions_noop: "defined st \<Longrightarrow> define_functions st = st"
  by (simp add: define_functions_def)

lemma define_functions_funpow: "defined st \<Longrightarrow> (define_functions ^^ n) st = st"
  by (induction n) (simp_all add: define_functions_noop)

lemma define_functions_provider: "current_provider (define_functions st) = current_provider st"
  by (simp add: define_functions_def bind_functions_def)

lemma module_load_defined: "module_load w = Inr st \<Longrightarrow> defined st"
  by (auto simp: module_load_def define_functions_defined split: sum.splits)

lemma define_functions_bound:
  "get_instance_id (define_functions (globals_at_load p)) \<noteq> None
   \<and> get_instance_ip (define_functions (globals_at_load p)) \<noteq> None
   \<and> get_instance_type (define_functions (globals_at_load p)) \<noteq> None
   \<and> get_instance_region (define_functions (globals_at_load p)) \<noteq> None
   \<and> get_instance_scaling_group (define_functions (globals_at_load p)) \<noteq> None"
  by (simp add: define_functions_def bind_functions_def globals_at_load_def)

text \<open>
  C7. Building the accessor set happens at most once. When \<^verbatim>\<open>_defined\<close> is set,
  \<^verbatim>\<open>_define_functions\<close> changes nothing: the five bound accessors and the provider tag
  stay as they are. A call always leaves the flag set and never touches the provider
  tag, so any number of further calls leaves the globals as the first one made them;
  in particular the globals of the loaded module are a fixed point, and their provider
  tag is what \<^verbatim>\<open>detect_cloud\<close> returned.
\<close>

theorem define_functions_at_most_once:
  "(defined st \<longrightarrow> define_functions st = st)
   \<and> defined (define_functions st)
   \<and> (define_functions ^^ n) (define_functions st) = define_functions st
   \<and> current_provider (define_functions st) = current_provider st
   \<and> (module_load w = Inr st' \<longrightarrow>
        (define_functions ^^ n) st' = st'
        \<and> detect_cloud w = Inr (current_provider st'))"
proof (intro conjI impI)
  assume "defined st"
  then show "define_functions st = st"
    by (rule define_functions_noop)
next
  show "defined (define_functions st)"
    by (rule define_functions_defined)
next
  show "(define_functions ^^ n) (define_functions st) = define_functions st"
    by (rule define_functions_funpow) (rule define_functions_defined)
next
  show "current_provider (define_functions st) = current_provider st"
    by (rule define_functions_provider)
next
  assume "module_load w = Inr st'"
  then have "defined st'"
    by (rule module_load_defined)
  then show "(define_functions ^^ n) st' = st'"
    by (rule define_functions_funpow)
next
  assume "module_load w = Inr st'"
  then show "detect_cloud w = Inr (current_provider st')"
    by (auto simp: module_load_def define_functions_provider globals_at_load_def
          split: sum.splits)
qed

theorem define_functions_at_most_once_witness:
  "defined (define_functions (globals_at_load ''azure''))
   \<and> define_functions (define_functions (globals_at_load ''azure''))
       = define_functions (globals_at_load ''azure'')
   \<and> module_load azure_host = Inr (define_functions (globals_at_load ''azure''))
   \<and> (define_functions ^^ 3) (define_functions (globals_at_load ''azure''))
       = define_functions (globals_at_load ''azure'')"
proof -
  have d: "detect_cloud azure_host = Inr ''azure''"
    by code_simp
  then have m: "module_load azure_host = Inr (define_functions (globals_at_load ''azure''))"
    by (simp add: module_load_def)
  from define_functions_at_most_once [where st = "globals_at_load ''azure''"]
  have b: "defined (define_functions (globals_at_load ''azure''))"
    by blast
  with define_functions_at_most_once
         [where st = "define_functions (globals_at_load ''azure'')"]
  have i: "define_functions (define_functions (globals_at_load ''azure''))
             = define_functions (globals_at_load ''azure'')"
    by blast
  from m define_functions_at_most_once
         [where w = azure_host and st' = "define_functions (globals_at_load ''azure'')"
            and n = 3]
  have "(define_functions ^^ 3) (define_functions (globals_at_load ''azure''))
          = define_functions (globals_at_load ''azure'')"
    by blast
  with b i m show ?thesis
    by blast
qed

text \<open>
  C8. The accessor set is built when the module is imported, not on the first fact
  access: the module body calls \<^verbatim>\<open>_define_functions()\<close> right after
  \<^verbatim>\<open>detect_cloud()\<close>, so the globals of a loaded module have the flag set and all five
  accessors bound before any of them is called, and a later call of
  \<^verbatim>\<open>_define_functions\<close> returns at the flag.
\<close>

theorem accessors_bound_at_import:
  "(detect_cloud w = Inr p \<longrightarrow> module_load w = Inr (define_functions (globals_at_load p)))
   \<and> (module_load w = Inr st \<longrightarrow>
        defined st
        \<and> get_instance_id st \<noteq> None \<and> get_instance_ip st \<noteq> None
        \<and> get_instance_type st \<noteq> None \<and> get_instance_region st \<noteq> None
        \<and> get_instance_scaling_group st \<noteq> None
        \<and> define_functions st = st)"
proof (intro conjI impI)
  assume "detect_cloud w = Inr p"
  then show "module_load w = Inr (define_functions (globals_at_load p))"
    by (simp add: module_load_def)
next
  assume a: "module_load w = Inr st"
  then show "defined st"
    by (rule module_load_defined)
  then show "define_functions st = st"
    by (rule define_functions_noop)
  from a obtain p where st: "st = define_functions (globals_at_load p)"
    by (auto simp: module_load_def split: sum.splits)
  show "get_instance_id st \<noteq> None" "get_instance_ip st \<noteq> None"
    "get_instance_type st \<noteq> None" "get_instance_region st \<noteq> None"
    "get_instance_scaling_group st \<noteq> None"
    using define_functions_bound [of p] by (simp_all add: st)
qed

theorem accessors_bound_at_import_witness:
  "detect_cloud google_host = Inr ''google''
   \<and> module_load google_host = Inr (define_functions (globals_at_load ''google''))
   \<and> defined (define_functions (globals_at_load ''google''))
   \<and> get_instance_region (define_functions (globals_at_load ''google'')) \<noteq> None"
proof -
  have d: "detect_cloud google_host = Inr ''google''"
    by code_simp
  with accessors_bound_at_import [where w = google_host and p = "''google''"]
  have m: "module_load google_host = Inr (define_functions (globals_at_load ''google''))"
    by blast
  with accessors_bound_at_import
         [where w = google_host and st = "define_functions (globals_at_load ''google'')"]
  have "defined (define_functions (globals_at_load ''google''))
        \<and> get_instance_region (define_functions (globals_at_load ''google'')) \<noteq> None"
    by blast
  with d m show ?thesis
    by blast
qed

text \<open>
  On the host of \<open>blocked_world\<close> the import alone, with no fact requested, leaves the
  five accessors of the fallback strategy bound.
\<close>

theorem lazy_binding_counterexample:
  "module_load blocked_world = Inr (define_functions (globals_at_load ''unknown''))
   \<and> defined (define_functions (globals_at_load ''unknown''))
   \<and> get_instance_id (define_functions (globals_at_load ''unknown''))
       = Some local_get_instance_id
   \<and> get_instance_ip (define_functions (globals_at_load ''unknown''))
       = Some local_get_instance_ip
   \<and> get_instance_type (define_functions (globals_at_load ''unknown''))
       = Some local_get_instance_type
   \<and> get_instance_region (define_functions (globals_at_load ''unknown''))
       = Some local_get_instance_region
   \<and> get_instance_scaling_group (define_functions (globals_at_load ''unknown''))
       = Some local_get_instance_scaling_group"
proof -
  have "detect_cloud blocked_world = Inr ''unknown''"
    by code_simp
  then have "module_load blocked_world = Inr (define_functions (globals_at_load ''unknown''))"
    by (simp add: module_load_def)
  then show ?thesis
    by (simp add: define_functions_def bind_functions_def globals_at_load_def)
qed

section \<open>The scaling group of an Amazon instance\<close>



section \<open>Defaults of the accessors\<close>


lemma curl_none_iff:
  "curl w url (DValue PNone) params headers t = Inr PNone
     \<longleftrightarrow> http_failed (http_get w url params headers t)"
  by (auto simp: curl_def http_failed_def use_default_def split: http_outcome.splits)




lemma amazon_region_failed:
  "http_failed (http_get w (amazon_dynamic_prefix @ ''instance-identity/document'') None None
      default_timeout)
     \<Longrightarrow> amazon_get_instance_region w = Inr (PStr ''amazon/unknown'')"
  by (simp add: amazon_get_instance_region_def curl_failed use_default_def bnd_def)


lemma azure_curl_none_iff:
  "azure_curl w = Inr PNone
     \<longleftrightarrow> http_failed (http_get w azure_metadata_prefix (Some [(''version'', ''2017-03-01'')])
                       (Some [(''Metadata'', ''true'')]) default_timeout)"
  by (simp add: azure_curl_def curl_none_iff)


lemma azure_none:
  assumes "azure_curl w = Inr PNone"
  shows "azure_get_instance_id w = Inr (PStr (''i-'' @ hostname w))"
    and "azure_get_instance_ip w = Inr (PStr ''127.0.0.1'')"
    and "azure_get_instance_type w = Inr (PStr ''unknown'')"
    and "azure_get_instance_region w = Inr (PStr ''azure/unknown'')"
  using assms
  by (simp_all add: azure_get_instance_id_def azure_get_instance_ip_def
        azure_get_instance_type_def azure_get_instance_region_def bnd_def hostname_id_def)










text \<open>
  C10. Called with the default value \<^verbatim>\<open>None\<close> (what an omitted argument is), \<^verbatim>\<open>curl\<close>
  returns \<^verbatim>\<open>None\<close> when the request fails. The Amazon region accessor turns that
  \<^verbatim>\<open>None\<close> into \<^verbatim>\<open>amazon/unknown\<close>. The fetch of the Azure accessors returns
  \<^verbatim>\<open>None\<close> exactly when the request failed, and each of them then returns its own
  non-empty default.
\<close>

theorem curl_none_is_failure_sentinel:
  "(http_failed (http_get w url params headers timeout)
      \<longrightarrow> curl w url (DValue PNone) params headers timeout = Inr PNone)
   \<and> (http_failed (http_get w (amazon_dynamic_prefix @ ''instance-identity/document'') None None
         default_timeout)
      \<longrightarrow> amazon_get_instance_region w = Inr (PStr ''amazon/unknown''))
   \<and> (azure_curl w = Inr PNone
      \<longleftrightarrow> http_failed (http_get w azure_metadata_prefix (Some [(''version'', ''2017-03-01'')])
                        (Some [(''Metadata'', ''true'')]) default_timeout))
   \<and> (azure_curl w = Inr PNone
      \<longrightarrow> azure_get_instance_id w = Inr (PStr (''i-'' @ hostname w))
          \<and> azure_get_instance_ip w = Inr (PStr ''127.0.0.1'')
          \<and> azure_get_instance_type w = Inr (PStr ''unknown'')
          \<and> azure_get_instance_region w = Inr (PStr ''azure/unknown''))"
  using curl_none_iff [of w url params headers timeout] amazon_region_failed [of w]
    azure_curl_none_iff [of w] azure_none [of w]
  by blast

theorem curl_none_is_failure_sentinel_witness:
  "curl blocked_world (amazon_dynamic_prefix @ ''instance-identity/document'')
      (DValue PNone) None None default_timeout = Inr PNone
   \<and> amazon_get_instance_region blocked_world = Inr (PStr ''amazon/unknown'')
   \<and> azure_curl blocked_world = Inr PNone
   \<and> azure_get_instance_id blocked_world = Inr (PStr ''i-node1'')
   \<and> azure_get_instance_ip blocked_world = Inr (PStr ''127.0.0.1'')"
proof -
  have f: "\<And>url params headers. http_failed (http_get blocked_world url params headers
             default_timeout)"
    by (simp add: blocked_world_def http_failed_def)
  have h: "hostname blocked_world = ''node1''"
    by (simp add: blocked_world_def)
  from curl_none_is_failure_sentinel
         [where w = blocked_world
            and url = "amazon_dynamic_prefix @ ''instance-identity/document''"
            and params = None and headers = None and timeout = default_timeout]
       f h
  show ?thesis
    by simp
qed

section \<open>Every fact resolves\<close>









section \<open>Failures that reach the caller\<close>




end
